theory Spec2Isabelle
  imports Main "HOL-Library.Sublist"
begin

section \<open>The checkpointing exercise: a workflow over an external engine\<close>

text \<open>
  The notebook defines three Python functions: \<open>create_dataframe_ex\<close>,
  \<open>delete_hdfs_directory\<close> and \<open>create_checkpoint_ex\<close>. Each of them is a straight
  sequence of calls into the Spark session and the Hadoop file system, with one \<open>if\<close>
  in \<open>delete_hdfs_directory\<close> and no \<open>try\<close> anywhere. The engine is not part of the
  repository, so the functions are embedded over an engine that is a parameter: a
  record of operations on an engine state \<open>'s\<close>, each returning either an error
  \<open>'e\<close> (the call raises) or a value and the next state. Data frame handles \<open>'df\<close>
  and file system handles \<open>'fs\<close> are opaque.
\<close>

subsection \<open>Rows, calls and the engine interface\<close>

text \<open>A row of the sample table: \<open>(id, name, age)\<close>, Python \<open>int\<close>, \<open>str\<close>, \<open>int\<close>.\<close>

type_synonym row = "int \<times> string \<times> int"

text \<open>
  What a run does that is visible from outside: the calls it makes into the engine,
  with their arguments, and the lines it prints.
\<close>

datatype ('df, 'fs) event =
    CreateDataFrame "row list" "string list"
  | SetCheckpointDir string
  | Checkpoint 'df bool
  | IsCheckpointed 'df
  | GetCheckpointFile 'df
  | Show 'df int bool
  | FileSystemGet
  | FsExists 'fs string
  | FsDelete 'fs string bool
  | Print string

text \<open>
  The engine operations the notebook calls:
  \<^item> \<open>createDataFrame\<close>: \<^verbatim>\<open>spark.createDataFrame(data, headers)\<close>;
  \<^item> \<open>setCheckpointDir\<close>: \<^verbatim>\<open>sc.setCheckpointDir(dir)\<close>;
  \<^item> \<open>checkpoint\<close>: \<^verbatim>\<open>df.checkpoint(eager)\<close>, which returns a new data frame;
  \<^item> \<open>isCheckpointed\<close>: \<^verbatim>\<open>df.rdd.isCheckpointed()\<close>;
  \<^item> \<open>getCheckpointFile\<close>: \<^verbatim>\<open>df.rdd.getCheckpointFile()\<close>, a path or \<^verbatim>\<open>None\<close>;
  \<^item> \<open>df_show\<close>: \<^verbatim>\<open>df.show(n, truncate)\<close>;
  \<^item> \<open>fs_get\<close>: \<^verbatim>\<open>FileSystem.get(Configuration())\<close>;
  \<^item> \<open>fs_exists\<close>: \<^verbatim>\<open>fs.exists(Path(p))\<close>;
  \<^item> \<open>fs_delete\<close>: \<^verbatim>\<open>fs.delete(Path(p), recursive)\<close>, which returns a boolean.
\<close>

record ('s, 'df, 'fs, 'e) engine =
  createDataFrame :: "row list \<Rightarrow> string list \<Rightarrow> 's \<Rightarrow> 'e + 'df \<times> 's"
  setCheckpointDir :: "string \<Rightarrow> 's \<Rightarrow> 'e + unit \<times> 's"
  checkpoint :: "'df \<Rightarrow> bool \<Rightarrow> 's \<Rightarrow> 'e + 'df \<times> 's"
  isCheckpointed :: "'df \<Rightarrow> 's \<Rightarrow> 'e + bool \<times> 's"
  getCheckpointFile :: "'df \<Rightarrow> 's \<Rightarrow> 'e + string option \<times> 's"
  df_show :: "'df \<Rightarrow> int \<Rightarrow> bool \<Rightarrow> 's \<Rightarrow> 'e + unit \<times> 's"
  fs_get :: "'s \<Rightarrow> 'e + 'fs \<times> 's"
  fs_exists :: "'fs \<Rightarrow> string \<Rightarrow> 's \<Rightarrow> 'e + bool \<times> 's"
  fs_delete :: "'fs \<Rightarrow> string \<Rightarrow> bool \<Rightarrow> 's \<Rightarrow> 'e + bool \<times> 's"

subsection \<open>Sequencing: an exception ends the run\<close>

text \<open>
  A Python statement sequence over the engine: an action takes the engine state and
  returns the events it produced together with its outcome, \<open>Inl e\<close> when a call
  raised \<open>e\<close> and \<open>Inr (v, s')\<close> when it returned \<open>v\<close>. The events are kept in both
  cases. Since the source has no \<open>try\<close>, the first exception ends the run:
  \<open>bind\<close> runs the rest only after a normal return.
\<close>

type_synonym ('s, 'df, 'fs, 'e, 'a) action =
  "'s \<Rightarrow> ('df, 'fs) event list \<times> ('e + 'a \<times> 's)"

definition return :: "'a \<Rightarrow> ('s, 'df, 'fs, 'e, 'a) action" where
  "return v s = ([], Inr (v, s))"

definition bind ::
  "('s, 'df, 'fs, 'e, 'a) action \<Rightarrow> ('a \<Rightarrow> ('s, 'df, 'fs, 'e, 'b) action)
    \<Rightarrow> ('s, 'df, 'fs, 'e, 'b) action" where
  "bind m f s =
     (case m s of
        (t, Inl e) \<Rightarrow> (t, Inl e)
      | (t, Inr (v, s')) \<Rightarrow> (case f v s' of (t', r) \<Rightarrow> (t @ t', r)))"

text \<open>A call into the engine: the event is recorded, the outcome is the engine's.\<close>

definition invoke ::
  "('df, 'fs) event \<Rightarrow> ('s \<Rightarrow> 'e + 'a \<times> 's) \<Rightarrow> ('s, 'df, 'fs, 'e, 'a) action" where
  "invoke ev op s = ([ev], op s)"

definition print :: "string \<Rightarrow> ('s, 'df, 'fs, 'e, unit) action" where
  "print msg s = ([Print msg], Inr ((), s))"

text \<open>\<^verbatim>\<open>"{0}".format(x)\<close> for a boolean and for a string or \<^verbatim>\<open>None\<close>.\<close>

definition format_bool :: "bool \<Rightarrow> string" where
  "format_bool b = (if b then ''True'' else ''False'')"

definition format_file :: "string option \<Rightarrow> string" where
  "format_file f = (case f of None \<Rightarrow> ''None'' | Some p \<Rightarrow> p)"

subsection \<open>The notebook's functions\<close>

text \<open>The global of the fourth code cell: \<^verbatim>\<open>location_prefix = ""\<close>.\<close>

definition location_prefix :: string where
  "location_prefix = ''''"

definition headers :: "string list" where
  "headers = [''id'', ''name'', ''age'']"

definition data :: "row list" where
  "data =
    [(1, ''Steve'', 26), (2, ''Yolanda'', 23), (3, ''James'', 21), (4, ''Joe'', 19),
     (5, ''Ryan'', 20), (6, ''Connor'', 26), (7, ''Alan'', 31), (8, ''John'', 32),
     (9, ''Samantha'', 28), (10, ''Alex'', 30), (11, ''Dennis'', 29), (12, ''Michael'', 34),
     (13, ''Matthew'', 27), (14, ''Jim'', 29), (15, ''Sophia'', 25),
     (16, ''Wendy'', 29), (17, ''Stephan'', 32), (18, ''Claude'', 22),
     (19, ''Brendan'', 24), (20, ''Regina'', 37), (21, ''Stanley'', 21),
     (22, ''Sharron'', 32), (23, ''James'', 21)]"

text \<open>
  \<^verbatim>\<open>def create_dataframe_ex(sc, spark)\<close>: the two handles \<open>sc\<close> and \<open>spark\<close> are the
  engine; \<open>sc\<close> is not used.
\<close>

definition create_dataframe_ex ::
  "('s, 'df, 'fs, 'e) engine \<Rightarrow> ('s, 'df, 'fs, 'e, 'df) action" where
  "create_dataframe_ex E =
     invoke (CreateDataFrame data headers) (createDataFrame E data headers)"

text \<open>
  \<^verbatim>\<open>def delete_hdfs_directory(sc, spark, input_ckpt_path)\<close>. The three class lookups
  through the gateway are folded into the operations that use them. The value that
  \<open>fs.delete\<close> returns is dropped, as in the source.
\<close>

definition delete_hdfs_directory ::
  "('s, 'df, 'fs, 'e) engine \<Rightarrow> string \<Rightarrow> ('s, 'df, 'fs, 'e, unit) action" where
  "delete_hdfs_directory E input_ckpt_path =
     bind (invoke FileSystemGet (fs_get E)) (\<lambda>fs.
     bind (invoke (FsExists fs input_ckpt_path) (fs_exists E fs input_ckpt_path)) (\<lambda>found.
       if found then
         bind (print (''Deleting Checkpoint location=('' @ input_ckpt_path @ '') - STARTED '')) (\<lambda>_.
         bind (invoke (FsDelete fs input_ckpt_path True) (fs_delete E fs input_ckpt_path True)) (\<lambda>_.
         print (''Deleting Checkpoint location=('' @ input_ckpt_path @ '') - DONE '')))
       else return ()))"

text \<open>\<^verbatim>\<open>def create_checkpoint_ex(sc, spark)\<close>, statement by statement.\<close>

definition create_checkpoint_ex ::
  "('s, 'df, 'fs, 'e) engine \<Rightarrow> ('s, 'df, 'fs, 'e, unit) action" where
  "create_checkpoint_ex E =
     bind (create_dataframe_ex E) (\<lambda>df.
     bind (print ''Creating checkpoint - example'') (\<lambda>_.
     let checkpoint_dir = location_prefix @ ''my_local_check_point'' in
     bind (print (''Set checkpoint directory='' @ checkpoint_dir)) (\<lambda>_.
     bind (invoke (SetCheckpointDir checkpoint_dir) (setCheckpointDir E checkpoint_dir)) (\<lambda>_.
     bind (invoke (Checkpoint df True) (checkpoint E df True)) (\<lambda>df.
     bind (invoke (IsCheckpointed df) (isCheckpointed E df)) (\<lambda>c.
     bind (print (''Check whether dataframe is checkpointed:'' @ format_bool c)) (\<lambda>_.
     bind (invoke (GetCheckpointFile df) (getCheckpointFile E df)) (\<lambda>f.
     bind (print (''Get the name of the file to which this RDD was checkpointed:''
                  @ format_file f)) (\<lambda>_.
     bind (print ''Do all operations with dataframe...'') (\<lambda>_.
     bind (invoke (Show df 25 False) (df_show E df 25 False)) (\<lambda>_.
     bind (print ''Deleting the checkpoint'') (\<lambda>_.
     delete_hdfs_directory E checkpoint_dir))))))))))))"

section \<open>An engine modelled from the specification\<close>

text \<open>
  Spark and the Hadoop file system are outside the repository. Where a property depends
  on what they answer, it is stated for the engine below, which follows the
  specification's description of the data and the operations (its sections 3, 4.1, 6
  and 7). Where the specification leaves a detail open, the simplest choice is made and
  named: the checkpoint file is the entry \<open>rdd\<close> directly under the location, and the
  storage refuses writes and deletes on the locations of a list it holds.
\<close>

text \<open>
  Modelled from the spec: the errors the engine reports, which the source never
  constructs. Section 7 lists a checkpoint location that is unset or unwritable when
  persistence is requested, and a delete that the storage rejects.
\<close>

datatype engine_error = LocationUnset | LocationUnwritable | DeleteRejected

text \<open>
  Modelled from the spec: the tabular dataset of section 3, which the source only holds
  a handle to. It is an ordered sequence of records under a fixed list of columns,
  together with the checkpoint marker: the file it was checkpointed to, if any.
\<close>

record dataset =
  columns :: "string list"
  records :: "row list"
  checkpoint_file :: "string option"

text \<open>
  Modelled from the spec: the engine's state, which lives in the Spark and Hadoop
  processes. It holds the engine-wide checkpoint location (the last path configured, if
  any), the durable storage as a list of paths with the dataset materialised at each
  (the first entry for a path is the current one), and the locations on which the
  storage refuses writes and deletes.
\<close>

record engine_state =
  checkpoint_location :: "string option"
  storage :: "(string \<times> string list \<times> row list) list"
  denied :: "string list"

text \<open>
  Modelled from the spec: a location names a directory tree in durable storage, which
  the source reaches only through the file system client. A path lies in the tree when
  it is the location itself or continues it after a \<open>/\<close>.
\<close>

definition in_tree :: "string \<Rightarrow> string \<Rightarrow> bool" where
  "in_tree loc p \<longleftrightarrow> p = loc \<or> prefix (loc @ ''/'') p"

text \<open>
  Modelled from the spec: the existence check on the storage, which the source only
  calls. A location exists when something is stored in its tree.
\<close>

definition location_exists :: "engine_state \<Rightarrow> string \<Rightarrow> bool" where
  "location_exists s loc \<longleftrightarrow> (\<exists>p \<in> fst ` set (storage s). in_tree loc p)"

text \<open>
  Modelled from the spec: reading a dataset back from a checkpoint file path, which
  the source never does.
\<close>

definition read_checkpoint :: "engine_state \<Rightarrow> string \<Rightarrow> (string list \<times> row list) option" where
  "read_checkpoint s f = map_of (storage s) f"

text \<open>
  Modelled from the spec: \<open>build_sample_dataset\<close>'s engine call. Building a dataset
  from a literal has no failure modes and leaves the engine as it is.
\<close>

definition spec_createDataFrame ::
  "row list \<Rightarrow> string list \<Rightarrow> engine_state \<Rightarrow> engine_error + dataset \<times> engine_state" where
  "spec_createDataFrame rs cs s =
     Inr (\<lparr>columns = cs, records = rs, checkpoint_file = None\<rparr>, s)"

text \<open>
  Modelled from the spec: \<open>configure_checkpoint_location\<close> registers the path as the
  location for future checkpoint operations, in the engine-wide configuration.
\<close>

definition spec_setCheckpointDir ::
  "string \<Rightarrow> engine_state \<Rightarrow> engine_error + unit \<times> engine_state" where
  "spec_setCheckpointDir loc s = Inr ((), s\<lparr>checkpoint_location := Some loc\<rparr>)"

text \<open>
  Modelled from the spec: \<open>checkpoint_dataset\<close> fails if no checkpoint location was
  configured or if the location is not writable. Otherwise it materialises the dataset
  in a file of the configured location and returns a new dataset reference that
  carries the file. The specification's operation is always synchronous, so the
  \<open>eager\<close> flag of the call changes nothing here.
\<close>

definition spec_checkpoint ::
  "dataset \<Rightarrow> bool \<Rightarrow> engine_state \<Rightarrow> engine_error + dataset \<times> engine_state" where
  "spec_checkpoint df eager s =
     (case checkpoint_location s of
        None \<Rightarrow> Inl LocationUnset
      | Some loc \<Rightarrow>
          if loc \<in> set (denied s) then Inl LocationUnwritable
          else
            let f = loc @ ''/rdd'' in
            Inr (df\<lparr>checkpoint_file := Some f\<rparr>,
                 s\<lparr>storage := (f, columns df, records df) # storage s\<rparr>))"

text \<open>
  Modelled from the spec: \<open>is_checkpointed\<close>, an accessor of the engine without side
  effects. It answers false unless the dataset comes from a successful checkpoint.
\<close>

definition spec_isCheckpointed ::
  "dataset \<Rightarrow> engine_state \<Rightarrow> engine_error + bool \<times> engine_state" where
  "spec_isCheckpointed df s = Inr (checkpoint_file df \<noteq> None, s)"

text \<open>
  Modelled from the spec: \<open>checkpoint_file\<close>, an accessor of the engine without side
  effects. It answers no file unless the dataset comes from a successful checkpoint.
\<close>

definition spec_getCheckpointFile ::
  "dataset \<Rightarrow> engine_state \<Rightarrow> engine_error + string option \<times> engine_state" where
  "spec_getCheckpointFile df s = Inr (checkpoint_file df, s)"

text \<open>
  Modelled from the spec: displaying the dataset, an engine call for which the
  specification gives neither a failure mode nor an effect on the engine.
\<close>

definition spec_show ::
  "dataset \<Rightarrow> int \<Rightarrow> bool \<Rightarrow> engine_state \<Rightarrow> engine_error + unit \<times> engine_state" where
  "spec_show df n trunc s = Inr ((), s)"

text \<open>
  Modelled from the spec: obtaining the storage client from the engine, for which the
  specification gives neither a failure mode nor an effect on the engine.
\<close>

definition spec_fs_get :: "engine_state \<Rightarrow> engine_error + unit \<times> engine_state" where
  "spec_fs_get s = Inr ((), s)"

text \<open>
  Modelled from the spec: the storage client's \<open>exists(path)\<close>, which answers whether
  the location exists and changes nothing.
\<close>

definition spec_fs_exists ::
  "unit \<Rightarrow> string \<Rightarrow> engine_state \<Rightarrow> engine_error + bool \<times> engine_state" where
  "spec_fs_exists fs p s = Inr (location_exists s p, s)"

text \<open>
  Modelled from the spec: the storage client's \<open>delete(path, recursive)\<close>, with result
  success or failure. A delete of an absent path reports "not found" (\<open>False\<close>) and
  changes nothing. The storage rejects, with an error, a delete on a location it
  denies and a non-recursive delete of a tree that holds more than the path itself.
  Otherwise the whole tree at the path is removed and the answer is \<open>True\<close>.
\<close>

definition spec_fs_delete ::
  "unit \<Rightarrow> string \<Rightarrow> bool \<Rightarrow> engine_state \<Rightarrow> engine_error + bool \<times> engine_state" where
  "spec_fs_delete fs p recursive s =
     (if \<not> location_exists s p then Inr (False, s)
      else if p \<in> set (denied s) then Inl DeleteRejected
      else if \<not> recursive \<and> (\<exists>q \<in> fst ` set (storage s). q \<noteq> p \<and> in_tree p q)
        then Inl DeleteRejected
      else Inr (True, s\<lparr>storage := filter (\<lambda>(q, c). \<not> in_tree p q) (storage s)\<rparr>))"

text \<open>
  Modelled from the spec: the engine handle that the notebook receives, made of the
  operations above. The storage client has no state of its own, so its handle is
  \<open>unit\<close>.
\<close>

definition spec_engine :: "(engine_state, dataset, unit, engine_error) engine" where
  "spec_engine =
     \<lparr>createDataFrame = spec_createDataFrame,
      setCheckpointDir = spec_setCheckpointDir,
      checkpoint = spec_checkpoint,
      isCheckpointed = spec_isCheckpointed,
      getCheckpointFile = spec_getCheckpointFile,
      df_show = spec_show,
      fs_get = spec_fs_get,
      fs_exists = spec_fs_exists,
      fs_delete = spec_fs_delete\<rparr>"

text \<open>An engine that has stored nothing, denies nothing and has no location configured.\<close>

definition fresh :: engine_state where
  "fresh = \<lparr>checkpoint_location = None, storage = [], denied = []\<rparr>"

text \<open>
  An engine that refuses writes and deletes on the workflow's location, one that holds a
  checkpoint under \<open>ckpt_test\<close> besides an unrelated entry, and the latter once
  \<open>ckpt_test\<close> is removed.
\<close>

definition read_only :: engine_state where
  "read_only = \<lparr>checkpoint_location = None, storage = [], denied = [''my_local_check_point'']\<rparr>"

definition stored :: engine_state where
  "stored = \<lparr>checkpoint_location = None,
              storage = [(''ckpt_test/rdd'', headers, data), (''other'', headers, [])],
              denied = []\<rparr>"

definition cleaned :: engine_state where
  "cleaned = \<lparr>checkpoint_location = None, storage = [(''other'', headers, [])], denied = []\<rparr>"

text \<open>
  An engine that holds a checkpoint under \<open>ckpt_test\<close> and refuses writes and deletes
  on that location.
\<close>

definition blocked :: engine_state where
  "blocked = \<lparr>checkpoint_location = None,
               storage = [(''ckpt_test/rdd'', headers, data)],
               denied = [''ckpt_test'']\<rparr>"

text \<open>The events of the run of the workflow that starts from the engine \<open>fresh\<close>.\<close>

definition sample_events :: "(dataset, unit) event list" where
  "sample_events = fst (create_checkpoint_ex spec_engine fresh)"

section \<open>Notions the properties are stated with\<close>

text \<open>
  \<open>led_by P Q t\<close>: in the event list \<open>t\<close>, no event satisfying \<open>Q\<close> occurs before the
  first event satisfying \<open>P\<close>.
\<close>

fun led_by :: "('a \<Rightarrow> bool) \<Rightarrow> ('a \<Rightarrow> bool) \<Rightarrow> 'a list \<Rightarrow> bool" where
  "led_by P Q [] = True"
| "led_by P Q (x # xs) = (\<not> Q x \<and> (P x \<or> led_by P Q xs))"

text \<open>
  \<open>right_after P Q False t\<close>: in the event list \<open>t\<close>, every event satisfying \<open>Q\<close>
  comes directly after an event satisfying \<open>P\<close>. The boolean says whether the event
  before the list satisfies \<open>P\<close>.
\<close>

fun right_after :: "('a \<Rightarrow> bool) \<Rightarrow> ('a \<Rightarrow> bool) \<Rightarrow> bool \<Rightarrow> 'a list \<Rightarrow> bool" where
  "right_after P Q prev [] = True"
| "right_after P Q prev (x # xs) = ((Q x \<longrightarrow> prev) \<and> right_after P Q (P x) xs)"

definition is_configure :: "('df, 'fs) event \<Rightarrow> bool" where
  "is_configure ev = (case ev of SetCheckpointDir d \<Rightarrow> True | _ \<Rightarrow> False)"

definition is_checkpoint :: "('df, 'fs) event \<Rightarrow> bool" where
  "is_checkpoint ev = (case ev of Checkpoint df eager \<Rightarrow> True | _ \<Rightarrow> False)"

definition is_storage_call :: "('df, 'fs) event \<Rightarrow> bool" where
  "is_storage_call ev =
     (case ev of FsExists fs p \<Rightarrow> True | FsDelete fs p r \<Rightarrow> True | _ \<Rightarrow> False)"

text \<open>
  Performing the recorded calls once more, each exactly once and in the recorded
  order, from a given engine state: \<open>perform\<close> makes the engine call an event stands
  for and keeps the state it leaves, \<open>replay\<close> stops at the first call that raises.
  Printing does not touch the engine.
\<close>

definition outcome_state :: "'e + 'a \<times> 's \<Rightarrow> 'e + 's" where
  "outcome_state r = (case r of Inl e \<Rightarrow> Inl e | Inr (v, s) \<Rightarrow> Inr s)"

fun perform :: "('s, 'df, 'fs, 'e) engine \<Rightarrow> ('df, 'fs) event \<Rightarrow> 's \<Rightarrow> 'e + 's" where
  "perform E (CreateDataFrame rs cs) s = outcome_state (createDataFrame E rs cs s)"
| "perform E (SetCheckpointDir d) s = outcome_state (setCheckpointDir E d s)"
| "perform E (Checkpoint df eager) s = outcome_state (checkpoint E df eager s)"
| "perform E (IsCheckpointed df) s = outcome_state (isCheckpointed E df s)"
| "perform E (GetCheckpointFile df) s = outcome_state (getCheckpointFile E df s)"
| "perform E (Show df n trunc) s = outcome_state (df_show E df n trunc s)"
| "perform E FileSystemGet s = outcome_state (fs_get E s)"
| "perform E (FsExists fs p) s = outcome_state (fs_exists E fs p s)"
| "perform E (FsDelete fs p r) s = outcome_state (fs_delete E fs p r s)"
| "perform E (Print msg) s = Inr s"

fun replay :: "('s, 'df, 'fs, 'e) engine \<Rightarrow> ('df, 'fs) event list \<Rightarrow> 's \<Rightarrow> 'e + 's" where
  "replay E [] s = Inr s"
| "replay E (ev # t) s =
     (case perform E ev s of Inl e \<Rightarrow> Inl e | Inr s' \<Rightarrow> replay E t s')"

text \<open>
  The states of a dataset in the specification's state machine, and the machine read
  over the events of a run: creating the dataset is allowed only while nothing has been
  checkpointed, a checkpoint call leads from \<open>Unmaterialized\<close> to \<open>Checkpointed\<close>, a
  delete call from \<open>Checkpointed\<close> to \<open>Deleted\<close>, and in every other state these calls
  are refused (\<open>None\<close>). No other event changes the state.
\<close>

datatype phase = Unmaterialized | Checkpointed | Deleted

fun advance :: "phase \<Rightarrow> ('df, 'fs) event \<Rightarrow> phase option" where
  "advance ph (CreateDataFrame rs cs) =
     (if ph = Unmaterialized then Some Unmaterialized else None)"
| "advance ph (Checkpoint df eager) =
     (if ph = Unmaterialized then Some Checkpointed else None)"
| "advance ph (FsDelete fs p r) = (if ph = Checkpointed then Some Deleted else None)"
| "advance ph ev = Some ph"

fun lifecycle :: "phase \<Rightarrow> ('df, 'fs) event list \<Rightarrow> phase option" where
  "lifecycle ph [] = Some ph"
| "lifecycle ph (ev # t) =
     (case advance ph ev of None \<Rightarrow> None | Some ph' \<Rightarrow> lifecycle ph' t)"

section \<open>Properties\<close>

subsection \<open>Evaluating a run\<close>

text \<open>
  The events and the outcome of a sequence, one statement at a time. The events of a
  run are \<open>fst\<close> of it, its outcome is \<open>snd\<close>.
\<close>

lemma fst_bind_invoke:
  "fst (bind (invoke ev op) f s) =
     ev # (case op s of Inl e \<Rightarrow> [] | Inr (v, s') \<Rightarrow> fst (f v s'))"
  by (simp add: bind_def invoke_def split: sum.splits prod.splits)

lemma snd_bind_invoke:
  "snd (bind (invoke ev op) f s) =
     (case op s of Inl e \<Rightarrow> Inl e | Inr (v, s') \<Rightarrow> snd (f v s'))"
  by (simp add: bind_def invoke_def split: sum.splits prod.splits)

lemma fst_bind_print: "fst (bind (print msg) f s) = Print msg # fst (f () s)"
  by (simp add: bind_def print_def split: prod.splits)

lemma snd_bind_print: "snd (bind (print msg) f s) = snd (f () s)"
  by (simp add: bind_def print_def split: prod.splits)

lemma fst_invoke: "fst (invoke ev op s) = [ev]"
  by (simp add: invoke_def)

lemma snd_invoke: "snd (invoke ev op s) = op s"
  by (simp add: invoke_def)

lemma fst_print: "fst (print msg s) = [Print msg]"
  by (simp add: print_def)

lemma snd_print: "snd (print msg s) = Inr ((), s)"
  by (simp add: print_def)

lemma fst_return: "fst (return v s) = []"
  by (simp add: return_def)

lemma snd_return: "snd (return v s) = Inr (v, s)"
  by (simp add: return_def)

lemmas run_simps =
  create_checkpoint_ex_def create_dataframe_ex_def delete_hdfs_directory_def Let_def
  fst_bind_invoke snd_bind_invoke fst_bind_print snd_bind_print
  fst_invoke snd_invoke fst_print snd_print fst_return snd_return

lemmas spec_simps =
  spec_engine_def spec_createDataFrame_def spec_setCheckpointDir_def spec_checkpoint_def
  spec_isCheckpointed_def spec_getCheckpointFile_def spec_show_def spec_fs_get_def
  spec_fs_exists_def spec_fs_delete_def

subsection \<open>What every run does, on any engine\<close>

lemma led_byD:
  "led_by P Q t \<Longrightarrow> t = pre @ x # post \<Longrightarrow> Q x \<Longrightarrow> \<exists>y \<in> set pre. P y"
  by (induction pre arbitrary: t) auto

lemma right_afterD:
  "right_after P Q b t \<Longrightarrow> t = pre @ x # post \<Longrightarrow> Q x \<Longrightarrow>
     (if pre = [] then b else P (last pre))"
  by (induction pre arbitrary: b t) auto

lemma checkpoint_right_after_configure:
  "right_after is_configure is_checkpoint False (fst (create_checkpoint_ex E s))"
  by (simp add: run_simps is_configure_def is_checkpoint_def split: sum.splits prod.splits)

lemma replay_append:
  "replay E (xs @ ys) s =
     (case replay E xs s of Inl e \<Rightarrow> Inl e | Inr s' \<Rightarrow> replay E ys s')"
  by (induction xs arbitrary: s) (auto split: sum.splits)

lemma configure_first:
  "led_by is_configure (\<lambda>ev. is_storage_call ev \<or> is_checkpoint ev)
     (fst (create_checkpoint_ex E s))"
  by (simp add: run_simps is_configure_def is_storage_call_def is_checkpoint_def
      split: sum.splits prod.splits)

lemma checkpoint_first:
  "led_by is_checkpoint is_storage_call (fst (create_checkpoint_ex E s))"
  by (simp add: run_simps is_checkpoint_def is_storage_call_def
      split: sum.splits prod.splits)

lemma event_arguments:
  "list_all (\<lambda>ev. case ev of
       SetCheckpointDir q \<Rightarrow> q = location_prefix @ ''my_local_check_point''
     | FsExists fs p \<Rightarrow> p = location_prefix @ ''my_local_check_point''
     | FsDelete fs p r \<Rightarrow> p = location_prefix @ ''my_local_check_point'' \<and> r
     | Checkpoint df eager \<Rightarrow> eager
     | _ \<Rightarrow> True) (fst (create_checkpoint_ex E s))"
  by (simp add: run_simps split: sum.splits prod.splits)

lemma delete_event_arguments:
  "list_all (\<lambda>ev. case ev of
       FsExists fs p \<Rightarrow> p = q
     | FsDelete fs p r \<Rightarrow> p = q \<and> r
     | _ \<Rightarrow> True) (fst (delete_hdfs_directory E q s))"
  by (simp add: run_simps split: sum.splits prod.splits)

lemma outcome_is_replay:
  "snd (create_checkpoint_ex E s) =
     (case replay E (fst (create_checkpoint_ex E s)) s of
        Inl e \<Rightarrow> Inl e | Inr s' \<Rightarrow> Inr ((), s'))"
  by (simp add: run_simps outcome_state_def split: sum.splits prod.splits)

lemma calls_before_last_return:
  "\<exists>s'. replay E (butlast (fst (create_checkpoint_ex E s))) s = Inr s'"
  by (simp add: run_simps outcome_state_def split: sum.splits prod.splits)

lemma lifecycle_accepts:
  "lifecycle Unmaterialized (fst (create_checkpoint_ex E s)) \<noteq> None"
  by (simp add: run_simps split: sum.splits prod.splits)

lemma configured_path:
  assumes "SetCheckpointDir q \<in> set (fst (create_checkpoint_ex E s))"
  shows "q = location_prefix @ ''my_local_check_point''"
  using bspec [OF event_arguments [unfolded list_all_iff] assms] by simp

lemma exists_path:
  assumes "FsExists fs p \<in> set (fst (create_checkpoint_ex E s))"
  shows "p = location_prefix @ ''my_local_check_point''"
  using bspec [OF event_arguments [unfolded list_all_iff] assms] by simp

lemma delete_path:
  assumes "FsDelete fs p r \<in> set (fst (create_checkpoint_ex E s))"
  shows "p = location_prefix @ ''my_local_check_point'' \<and> r"
  using bspec [OF event_arguments [unfolded list_all_iff] assms] by simp

lemma checkpoint_eager:
  assumes "Checkpoint df eager \<in> set (fst (create_checkpoint_ex E s))"
  shows "eager"
  using bspec [OF event_arguments [unfolded list_all_iff] assms] by simp

lemma delete_hdfs_directory_path:
  assumes "FsDelete fs p r \<in> set (fst (delete_hdfs_directory E q s))"
  shows "p = q \<and> r"
  using bspec [OF delete_event_arguments [unfolded list_all_iff] assms] by simp

lemma replay_prefix:
  assumes "replay E (xs @ ys) s = Inr s'"
  shows "\<exists>s1. replay E xs s = Inr s1"
  using assms by (cases "replay E xs s") (simp_all add: replay_append)

lemma calls_before_any_event_return:
  assumes t: "fst (create_checkpoint_ex E s) = pre @ ev # post"
  shows "\<exists>s1. replay E pre s = Inr s1"
proof -
  obtain s' where "replay E (butlast (fst (create_checkpoint_ex E s))) s = Inr s'"
    using calls_before_last_return [of E s] by (elim exE)
  then have "replay E (pre @ butlast (ev # post)) s = Inr s'"
    by (simp add: t butlast_append)
  then show ?thesis
    by (rule replay_prefix)
qed

text \<open>
  The boolean that the delete call returns does not reach the outcome: a storage that
  reported a failed delete by returning \<open>False\<close> instead of raising would go
  unnoticed.
\<close>

lemma delete_result_is_dropped:
  assumes "fs_get E s = Inr (fs, s1)" and "fs_exists E fs p s1 = Inr (True, s2)"
    and "fs_delete E fs p True s2 = Inr (r, s3)"
  shows "snd (delete_hdfs_directory E p s) = Inr ((), s3)"
  using assms by (simp add: run_simps)

lemma events_nonempty: "fst (create_checkpoint_ex E s) \<noteq> []"
  by (simp add: run_simps)

subsection \<open>What a run does on the engine of the specification\<close>

lemma spec_run_outcome:
  "snd (create_checkpoint_ex spec_engine s) =
     (if ''my_local_check_point'' \<in> set (denied s) then Inl LocationUnwritable
      else Inr ((), s\<lparr>checkpoint_location := Some ''my_local_check_point'',
                      storage := filter (\<lambda>(q, c). \<not> in_tree ''my_local_check_point'' q)
                                   (storage s)\<rparr>))"
  by (simp add: run_simps spec_simps location_prefix_def location_exists_def in_tree_def)

lemma spec_run_events:
  "fst (create_checkpoint_ex spec_engine s) =
     (let dir = ''my_local_check_point'';
          df = \<lparr>columns = headers, records = data, checkpoint_file = None\<rparr>;
          df' = \<lparr>columns = headers, records = data, checkpoint_file = Some (dir @ ''/rdd'')\<rparr>
      in [CreateDataFrame data headers,
          Print ''Creating checkpoint - example'',
          Print (''Set checkpoint directory='' @ dir),
          SetCheckpointDir dir,
          Checkpoint df True] @
         (if dir \<in> set (denied s) then []
          else [IsCheckpointed df',
                Print ''Check whether dataframe is checkpointed:True'',
                GetCheckpointFile df',
                Print (''Get the name of the file to which this RDD was checkpointed:''
                       @ dir @ ''/rdd''),
                Print ''Do all operations with dataframe...'',
                Show df' 25 False,
                Print ''Deleting the checkpoint'',
                FileSystemGet,
                FsExists () dir,
                Print (''Deleting Checkpoint location=('' @ dir @ '') - STARTED ''),
                FsDelete () dir True,
                Print (''Deleting Checkpoint location=('' @ dir @ '') - DONE '')]))"
  by (simp add: run_simps spec_simps location_prefix_def location_exists_def in_tree_def
      format_bool_def format_file_def)

lemma spec_delete_run:
  "delete_hdfs_directory spec_engine p s =
     (if \<not> location_exists s p then ([FileSystemGet, FsExists () p], Inr ((), s))
      else if p \<in> set (denied s) then
        ([FileSystemGet, FsExists () p,
          Print (''Deleting Checkpoint location=('' @ p @ '') - STARTED ''),
          FsDelete () p True], Inl DeleteRejected)
      else
        ([FileSystemGet, FsExists () p,
          Print (''Deleting Checkpoint location=('' @ p @ '') - STARTED ''),
          FsDelete () p True,
          Print (''Deleting Checkpoint location=('' @ p @ '') - DONE '')],
         Inr ((), s\<lparr>storage := filter (\<lambda>(q, c). \<not> in_tree p q) (storage s)\<rparr>)))"
  by (simp add: prod_eq_iff run_simps spec_simps)

lemma not_exists_after_delete:
  "\<not> location_exists (s\<lparr>storage := filter (\<lambda>(q, c). \<not> in_tree p q) (storage s)\<rparr>) p"
  by (auto simp: location_exists_def)

lemma read_after_delete:
  "in_tree p f \<Longrightarrow> map_of (filter (\<lambda>(q, c). \<not> in_tree p q) st) f = None"
  by (auto simp: map_of_eq_None_iff)

lemma sample_events_eq:
  "sample_events =
     [CreateDataFrame data headers,
      Print ''Creating checkpoint - example'',
      Print ''Set checkpoint directory=my_local_check_point'',
      SetCheckpointDir ''my_local_check_point'',
      Checkpoint \<lparr>columns = headers, records = data, checkpoint_file = None\<rparr> True,
      IsCheckpointed
        \<lparr>columns = headers, records = data,
           checkpoint_file = Some ''my_local_check_point/rdd''\<rparr>,
      Print ''Check whether dataframe is checkpointed:True'',
      GetCheckpointFile
        \<lparr>columns = headers, records = data,
           checkpoint_file = Some ''my_local_check_point/rdd''\<rparr>,
      Print ''Get the name of the file to which this RDD was checkpointed:my_local_check_point/rdd'',
      Print ''Do all operations with dataframe...'',
      Show \<lparr>columns = headers, records = data,
              checkpoint_file = Some ''my_local_check_point/rdd''\<rparr> 25 False,
      Print ''Deleting the checkpoint'',
      FileSystemGet,
      FsExists () ''my_local_check_point'',
      Print ''Deleting Checkpoint location=(my_local_check_point) - STARTED '',
      FsDelete () ''my_local_check_point'' True,
      Print ''Deleting Checkpoint location=(my_local_check_point) - DONE '']"
  by (simp add: sample_events_def spec_run_events fresh_def Let_def)

lemmas sample_run = sample_events_eq [unfolded sample_events_def]

section \<open>The claims\<close>

text \<open>
  C1. On the engine of the specification: when the sample dataset is built, any
  location is configured, the dataset is checkpointed and the engine is asked for the
  checkpoint file, as the workflow does in this order, then reading that file back
  yields the columns and the records of the dataset that was built, which are the
  headers \<open>id\<close> (the identifier), \<open>name\<close>, \<open>age\<close> and the 23 sample records in their
  order. In a run of the workflow that gets as far as asking for the file, the state
  the engine is in after the first five events (the checkpoint call is the fifth) holds
  the sample table at the file of the checkpointed dataset.
\<close>

theorem checkpoint_round_trip:
  "(create_dataframe_ex spec_engine s0 = (t, Inr (df, s1))
      \<and> setCheckpointDir spec_engine loc s1 = Inr ((), s2)
      \<and> checkpoint spec_engine df True s2 = Inr (df', s3)
      \<and> getCheckpointFile spec_engine df' s3 = Inr (file, s4) \<longrightarrow>
      (\<exists>f. file = Some f \<and> read_checkpoint s4 f = Some (columns df, records df))
      \<and> (columns df, records df) = (headers, data))
   \<and> (GetCheckpointFile d \<in> set (fst (create_checkpoint_ex spec_engine s)) \<longrightarrow>
      (\<exists>f s'. checkpoint_file d = Some f
         \<and> replay spec_engine (take 5 (fst (create_checkpoint_ex spec_engine s))) s = Inr s'
         \<and> read_checkpoint s' f = Some (headers, data)))
   \<and> headers = [''id'', ''name'', ''age''] \<and> length data = 23"
proof (intro conjI impI)
  assume a: "create_dataframe_ex spec_engine s0 = (t, Inr (df, s1))
      \<and> setCheckpointDir spec_engine loc s1 = Inr ((), s2)
      \<and> checkpoint spec_engine df True s2 = Inr (df', s3)
      \<and> getCheckpointFile spec_engine df' s3 = Inr (file, s4)"
  then have df: "df = \<lparr>columns = headers, records = data, checkpoint_file = None\<rparr>"
    by (auto simp: create_dataframe_ex_def invoke_def spec_simps)
  then show "(columns df, records df) = (headers, data)"
    by simp
  from a have "checkpoint_location s2 = Some loc"
    by (auto simp: spec_simps)
  with a have "file = Some (loc @ ''/rdd'')
      \<and> read_checkpoint s4 (loc @ ''/rdd'') = Some (columns df, records df)"
    by (auto simp: spec_simps read_checkpoint_def Let_def split: if_splits)
  then show "\<exists>f. file = Some f \<and> read_checkpoint s4 f = Some (columns df, records df)"
    by blast
next
  assume g: "GetCheckpointFile d \<in> set (fst (create_checkpoint_ex spec_engine s))"
  then have ok: "''my_local_check_point'' \<notin> set (denied s)"
    by (auto simp: spec_run_events Let_def split: if_splits)
  with g have d: "checkpoint_file d = Some ''my_local_check_point/rdd''"
    by (auto simp: spec_run_events Let_def)
  from ok have "replay spec_engine (take 5 (fst (create_checkpoint_ex spec_engine s))) s =
      Inr (s\<lparr>checkpoint_location := Some ''my_local_check_point'',
              storage := (''my_local_check_point/rdd'', headers, data) # storage s\<rparr>)"
    by (simp add: spec_run_events Let_def) (simp add: outcome_state_def spec_simps Let_def)
  with d show "\<exists>f s'. checkpoint_file d = Some f
         \<and> replay spec_engine (take 5 (fst (create_checkpoint_ex spec_engine s))) s = Inr s'
         \<and> read_checkpoint s' f = Some (headers, data)"
    by (simp add: read_checkpoint_def)
next
  show "headers = [''id'', ''name'', ''age'']"
    by (simp add: headers_def)
  show "length data = 23"
    by (simp add: data_def)
qed

theorem checkpoint_round_trip_witness:
  "(create_dataframe_ex spec_engine fresh =
       ([CreateDataFrame data headers],
        Inr (\<lparr>columns = headers, records = data, checkpoint_file = None\<rparr>, fresh))
     \<and> setCheckpointDir spec_engine ''ckpt_test'' fresh
        = Inr ((), fresh\<lparr>checkpoint_location := Some ''ckpt_test''\<rparr>)
     \<and> checkpoint spec_engine \<lparr>columns = headers, records = data, checkpoint_file = None\<rparr> True
          (fresh\<lparr>checkpoint_location := Some ''ckpt_test''\<rparr>)
        = Inr (\<lparr>columns = headers, records = data, checkpoint_file = Some ''ckpt_test/rdd''\<rparr>,
               fresh\<lparr>checkpoint_location := Some ''ckpt_test'',
                     storage := [(''ckpt_test/rdd'', headers, data)]\<rparr>)
     \<and> getCheckpointFile spec_engine
          \<lparr>columns = headers, records = data, checkpoint_file = Some ''ckpt_test/rdd''\<rparr>
          (fresh\<lparr>checkpoint_location := Some ''ckpt_test'',
                 storage := [(''ckpt_test/rdd'', headers, data)]\<rparr>)
        = Inr (Some ''ckpt_test/rdd'',
               fresh\<lparr>checkpoint_location := Some ''ckpt_test'',
                     storage := [(''ckpt_test/rdd'', headers, data)]\<rparr>))
   \<and> read_checkpoint (fresh\<lparr>checkpoint_location := Some ''ckpt_test'',
                            storage := [(''ckpt_test/rdd'', headers, data)]\<rparr>) ''ckpt_test/rdd''
       = Some (headers, data)
   \<and> GetCheckpointFile \<lparr>columns = headers, records = data,
        checkpoint_file = Some ''my_local_check_point/rdd''\<rparr>
        \<in> set (fst (create_checkpoint_ex spec_engine fresh))
   \<and> (\<exists>s'. replay spec_engine (take 5 (fst (create_checkpoint_ex spec_engine fresh))) fresh = Inr s'
         \<and> read_checkpoint s' ''my_local_check_point/rdd'' = Some (headers, data))"
proof -
  let ?df = "\<lparr>columns = headers, records = data, checkpoint_file = None\<rparr>"
  let ?df' = "\<lparr>columns = headers, records = data, checkpoint_file = Some ''ckpt_test/rdd''\<rparr>"
  let ?s2 = "fresh\<lparr>checkpoint_location := Some ''ckpt_test''\<rparr>"
  let ?s3 = "fresh\<lparr>checkpoint_location := Some ''ckpt_test'',
                   storage := [(''ckpt_test/rdd'', headers, data)]\<rparr>"
  have a: "create_dataframe_ex spec_engine fresh = ([CreateDataFrame data headers], Inr (?df, fresh))
     \<and> setCheckpointDir spec_engine ''ckpt_test'' fresh = Inr ((), ?s2)
     \<and> checkpoint spec_engine ?df True ?s2 = Inr (?df', ?s3)
     \<and> getCheckpointFile spec_engine ?df' ?s3 = Inr (Some ''ckpt_test/rdd'', ?s3)"
    by (simp add: create_dataframe_ex_def invoke_def spec_simps fresh_def Let_def)
  have g: "GetCheckpointFile \<lparr>columns = headers, records = data,
      checkpoint_file = Some ''my_local_check_point/rdd''\<rparr>
      \<in> set (fst (create_checkpoint_ex spec_engine fresh))"
    by (simp add: sample_run)
  show ?thesis
    using a g
      checkpoint_round_trip [THEN conjunct1, rule_format, OF a]
      checkpoint_round_trip [THEN conjunct2, THEN conjunct1, rule_format, OF g]
    by simp
qed

text \<open>
  C2. As stated, for every existing location, the property does not hold: the function
  has no handler, so a delete that the storage refuses ends the call with the
  storage's error and the location stays (the counterexample below). What holds, on the
  engine of the specification and for every path: when the location exists and the
  storage does not refuse the delete, \<open>delete_hdfs_directory\<close> returns normally and
  the location no longer exists afterwards; when the location does not exist, the
  function makes the existence check only, changes nothing and returns normally; and
  after a call that returned normally, a second call on the same path returns normally
  as well, again without a delete. On any engine whose existence check answers false,
  the function returns normally without a delete call.
\<close>

theorem delete_hdfs_directory_idempotent:
  "(location_exists s p \<and> p \<notin> set (denied s) \<longrightarrow>
      (\<exists>s1. snd (delete_hdfs_directory spec_engine p s) = Inr ((), s1)
         \<and> \<not> location_exists s1 p))
   \<and> (\<not> location_exists s p \<longrightarrow>
        delete_hdfs_directory spec_engine p s = ([FileSystemGet, FsExists () p], Inr ((), s)))
   \<and> (snd (delete_hdfs_directory spec_engine p s) = Inr ((), s') \<longrightarrow>
        delete_hdfs_directory spec_engine p s' = ([FileSystemGet, FsExists () p], Inr ((), s')))
   \<and> (fs_get E t = Inr (fs, t1) \<and> fs_exists E fs p t1 = Inr (False, t2) \<longrightarrow>
        delete_hdfs_directory E p t = ([FileSystemGet, FsExists fs p], Inr ((), t2)))"
proof (intro conjI impI)
  assume "location_exists s p \<and> p \<notin> set (denied s)"
  then show "\<exists>s1. snd (delete_hdfs_directory spec_engine p s) = Inr ((), s1)
      \<and> \<not> location_exists s1 p"
    by (simp add: spec_delete_run not_exists_after_delete)
next
  assume "\<not> location_exists s p"
  then show "delete_hdfs_directory spec_engine p s = ([FileSystemGet, FsExists () p], Inr ((), s))"
    by (simp add: spec_delete_run)
next
  assume "snd (delete_hdfs_directory spec_engine p s) = Inr ((), s')"
  then have "\<not> location_exists s' p"
    by (auto simp: spec_delete_run not_exists_after_delete split: if_splits)
  then show "delete_hdfs_directory spec_engine p s' = ([FileSystemGet, FsExists () p], Inr ((), s'))"
    by (simp add: spec_delete_run)
next
  assume "fs_get E t = Inr (fs, t1) \<and> fs_exists E fs p t1 = Inr (False, t2)"
  then show "delete_hdfs_directory E p t = ([FileSystemGet, FsExists fs p], Inr ((), t2))"
    by (simp add: prod_eq_iff run_simps)
qed

theorem delete_hdfs_directory_idempotent_witness:
  "(location_exists stored ''ckpt_test'' \<and> ''ckpt_test'' \<notin> set (denied stored))
   \<and> (\<exists>s1. snd (delete_hdfs_directory spec_engine ''ckpt_test'' stored) = Inr ((), s1)
         \<and> \<not> location_exists s1 ''ckpt_test'')
   \<and> snd (delete_hdfs_directory spec_engine ''ckpt_test'' stored) = Inr ((), cleaned)
   \<and> \<not> location_exists cleaned ''ckpt_test''
   \<and> delete_hdfs_directory spec_engine ''ckpt_test'' cleaned =
       ([FileSystemGet, FsExists () ''ckpt_test''], Inr ((), cleaned))
   \<and> (fs_get spec_engine cleaned = Inr ((), cleaned)
       \<and> fs_exists spec_engine () ''ckpt_test'' cleaned = Inr (False, cleaned))"
proof -
  have e: "location_exists stored ''ckpt_test'' \<and> ''ckpt_test'' \<notin> set (denied stored)"
    by (simp add: location_exists_def stored_def in_tree_def)
  have d: "snd (delete_hdfs_directory spec_engine ''ckpt_test'' stored) = Inr ((), cleaned)"
    using e by (simp add: spec_delete_run) (simp add: stored_def cleaned_def in_tree_def)
  have a: "\<not> location_exists cleaned ''ckpt_test''"
    by (simp add: location_exists_def cleaned_def in_tree_def)
  have g: "fs_get spec_engine cleaned = Inr ((), cleaned)
       \<and> fs_exists spec_engine () ''ckpt_test'' cleaned = Inr (False, cleaned)"
    using a by (simp add: spec_simps)
  show ?thesis
    using e d a g
      delete_hdfs_directory_idempotent [THEN conjunct1, rule_format, OF e]
      delete_hdfs_directory_idempotent [THEN conjunct2, THEN conjunct1, rule_format, OF a]
      delete_hdfs_directory_idempotent [THEN conjunct2, THEN conjunct2, THEN conjunct1,
        rule_format, OF d]
      delete_hdfs_directory_idempotent [THEN conjunct2, THEN conjunct2, THEN conjunct2,
        rule_format, OF g]
    by simp
qed

text \<open>
  The location \<open>ckpt_test\<close> exists in \<open>blocked\<close>, and the storage refuses to delete
  it: the call makes the delete, ends with the error \<open>DeleteRejected\<close> before the
  second message is printed, and the existence check still answers \<open>True\<close>. A second
  call in succession does the same, since nothing has changed.
\<close>

theorem delete_hdfs_directory_refused_counterexample:
  "location_exists blocked ''ckpt_test''
   \<and> delete_hdfs_directory spec_engine ''ckpt_test'' blocked =
       ([FileSystemGet, FsExists () ''ckpt_test'',
         Print ''Deleting Checkpoint location=(ckpt_test) - STARTED '',
         FsDelete () ''ckpt_test'' True],
        Inl DeleteRejected)
   \<and> fs_exists spec_engine () ''ckpt_test'' blocked = Inr (True, blocked)"
proof -
  have e: "location_exists blocked ''ckpt_test''"
    by (simp add: location_exists_def blocked_def in_tree_def)
  have d: "''ckpt_test'' \<in> set (denied blocked)"
    by (simp add: blocked_def)
  from e d have "delete_hdfs_directory spec_engine ''ckpt_test'' blocked =
       ([FileSystemGet, FsExists () ''ckpt_test'',
         Print ''Deleting Checkpoint location=(ckpt_test) - STARTED '',
         FsDelete () ''ckpt_test'' True],
        Inl DeleteRejected)"
    by (simp add: spec_delete_run)
  moreover from e have "fs_exists spec_engine () ''ckpt_test'' blocked = Inr (True, blocked)"
    by (simp add: spec_engine_def spec_fs_exists_def)
  ultimately show ?thesis
    using e by simp
qed

text \<open>
  C3. On the engine of the specification, for a dataset as \<open>createDataFrame\<close> returns
  it (any rows and columns) and any location configured after that:
  \<open>isCheckpointed\<close> answers \<open>False\<close> before the checkpoint call, and \<open>True\<close> for the
  dataset that a successful checkpoint call returns. A run of the workflow that gets
  as far as the query prints \<open>True\<close>.
\<close>

theorem is_checkpointed_before_and_after:
  "(createDataFrame spec_engine rs cs s0 = Inr (df, s1)
      \<and> setCheckpointDir spec_engine loc s1 = Inr ((), s2) \<longrightarrow>
      isCheckpointed spec_engine df s2 = Inr (False, s2)
      \<and> (checkpoint spec_engine df eager s2 = Inr (df', s3) \<longrightarrow>
           isCheckpointed spec_engine df' s3 = Inr (True, s3)))
   \<and> (IsCheckpointed d \<in> set (fst (create_checkpoint_ex spec_engine s)) \<longrightarrow>
        Print ''Check whether dataframe is checkpointed:True''
          \<in> set (fst (create_checkpoint_ex spec_engine s)))"
proof (intro conjI impI)
  assume a: "createDataFrame spec_engine rs cs s0 = Inr (df, s1)
      \<and> setCheckpointDir spec_engine loc s1 = Inr ((), s2)"
  then show "isCheckpointed spec_engine df s2 = Inr (False, s2)"
    by (auto simp: spec_simps)
  show "isCheckpointed spec_engine df' s3 = Inr (True, s3)"
    if "checkpoint spec_engine df eager s2 = Inr (df', s3)"
    using that by (auto simp: spec_simps Let_def split: option.splits if_splits)
next
  assume "IsCheckpointed d \<in> set (fst (create_checkpoint_ex spec_engine s))"
  then show "Print ''Check whether dataframe is checkpointed:True''
      \<in> set (fst (create_checkpoint_ex spec_engine s))"
    by (auto simp: spec_run_events Let_def split: if_splits)
qed

theorem is_checkpointed_before_and_after_witness:
  "(createDataFrame spec_engine data headers fresh
      = Inr (\<lparr>columns = headers, records = data, checkpoint_file = None\<rparr>, fresh)
    \<and> setCheckpointDir spec_engine ''ckpt_test'' fresh
      = Inr ((), fresh\<lparr>checkpoint_location := Some ''ckpt_test''\<rparr>))
   \<and> isCheckpointed spec_engine \<lparr>columns = headers, records = data, checkpoint_file = None\<rparr>
      (fresh\<lparr>checkpoint_location := Some ''ckpt_test''\<rparr>)
     = Inr (False, fresh\<lparr>checkpoint_location := Some ''ckpt_test''\<rparr>)
   \<and> checkpoint spec_engine \<lparr>columns = headers, records = data, checkpoint_file = None\<rparr> True
        (fresh\<lparr>checkpoint_location := Some ''ckpt_test''\<rparr>)
     = Inr (\<lparr>columns = headers, records = data, checkpoint_file = Some ''ckpt_test/rdd''\<rparr>,
            fresh\<lparr>checkpoint_location := Some ''ckpt_test'',
                  storage := [(''ckpt_test/rdd'', headers, data)]\<rparr>)
   \<and> isCheckpointed spec_engine
        \<lparr>columns = headers, records = data, checkpoint_file = Some ''ckpt_test/rdd''\<rparr>
        (fresh\<lparr>checkpoint_location := Some ''ckpt_test'',
               storage := [(''ckpt_test/rdd'', headers, data)]\<rparr>)
     = Inr (True, fresh\<lparr>checkpoint_location := Some ''ckpt_test'',
                        storage := [(''ckpt_test/rdd'', headers, data)]\<rparr>)
   \<and> IsCheckpointed \<lparr>columns = headers, records = data,
        checkpoint_file = Some ''my_local_check_point/rdd''\<rparr> \<in> set sample_events
   \<and> Print ''Check whether dataframe is checkpointed:True'' \<in> set sample_events"
proof -
  let ?df = "\<lparr>columns = headers, records = data, checkpoint_file = None\<rparr>"
  let ?s2 = "fresh\<lparr>checkpoint_location := Some ''ckpt_test''\<rparr>"
  have a: "createDataFrame spec_engine data headers fresh = Inr (?df, fresh)
      \<and> setCheckpointDir spec_engine ''ckpt_test'' fresh = Inr ((), ?s2)"
    by (simp add: spec_simps)
  have c: "checkpoint spec_engine ?df True ?s2 =
      Inr (\<lparr>columns = headers, records = data, checkpoint_file = Some ''ckpt_test/rdd''\<rparr>,
           fresh\<lparr>checkpoint_location := Some ''ckpt_test'',
                 storage := [(''ckpt_test/rdd'', headers, data)]\<rparr>)"
    by (simp add: spec_simps fresh_def Let_def)
  have q: "IsCheckpointed \<lparr>columns = headers, records = data,
      checkpoint_file = Some ''my_local_check_point/rdd''\<rparr>
      \<in> set (fst (create_checkpoint_ex spec_engine fresh))"
    by (simp add: sample_run)
  show ?thesis
    using a c q
      is_checkpointed_before_and_after [THEN conjunct1, rule_format, OF a, THEN conjunct1]
      is_checkpointed_before_and_after [THEN conjunct1, rule_format, OF a, THEN conjunct2,
        rule_format, OF c]
      is_checkpointed_before_and_after [THEN conjunct2, rule_format, OF q]
    by (simp add: sample_events_def)
qed

text \<open>
  C4. On the engine of the specification, after any location is configured and a
  checkpoint call has succeeded, \<open>getCheckpointFile\<close> on the returned dataset answers
  a path that has the configured location as a prefix. A run of the workflow that gets
  as far as this query prints a path that begins with the directory the workflow
  configured.
\<close>

theorem checkpoint_file_under_location:
  "(setCheckpointDir spec_engine loc s = Inr ((), s1)
      \<and> checkpoint spec_engine df eager s1 = Inr (df', s2) \<longrightarrow>
      (\<exists>f. getCheckpointFile spec_engine df' s2 = Inr (Some f, s2) \<and> prefix loc f))
   \<and> (GetCheckpointFile d \<in> set (fst (create_checkpoint_ex spec_engine s')) \<longrightarrow>
      (\<exists>f. checkpoint_file d = Some f
         \<and> prefix (location_prefix @ ''my_local_check_point'') f
         \<and> Print (''Get the name of the file to which this RDD was checkpointed:'' @ f)
              \<in> set (fst (create_checkpoint_ex spec_engine s'))))"
proof (intro conjI impI)
  assume a: "setCheckpointDir spec_engine loc s = Inr ((), s1)
      \<and> checkpoint spec_engine df eager s1 = Inr (df', s2)"
  then have "checkpoint_location s1 = Some loc"
    by (auto simp: spec_simps)
  with a have "getCheckpointFile spec_engine df' s2 = Inr (Some (loc @ ''/rdd''), s2)"
    by (auto simp: spec_simps Let_def split: if_splits)
  then show "\<exists>f. getCheckpointFile spec_engine df' s2 = Inr (Some f, s2) \<and> prefix loc f"
    by simp
next
  assume g: "GetCheckpointFile d \<in> set (fst (create_checkpoint_ex spec_engine s'))"
  then have ok: "''my_local_check_point'' \<notin> set (denied s')"
    by (auto simp: spec_run_events Let_def split: if_splits)
  with g have "checkpoint_file d = Some ''my_local_check_point/rdd''"
    by (auto simp: spec_run_events Let_def)
  moreover have "prefix (location_prefix @ ''my_local_check_point'') ''my_local_check_point/rdd''"
    by (simp add: location_prefix_def)
  moreover from ok have "Print (''Get the name of the file to which this RDD was checkpointed:''
      @ ''my_local_check_point/rdd'') \<in> set (fst (create_checkpoint_ex spec_engine s'))"
    by (simp add: spec_run_events Let_def)
  ultimately show "\<exists>f. checkpoint_file d = Some f
         \<and> prefix (location_prefix @ ''my_local_check_point'') f
         \<and> Print (''Get the name of the file to which this RDD was checkpointed:'' @ f)
              \<in> set (fst (create_checkpoint_ex spec_engine s'))"
    by blast
qed

theorem checkpoint_file_under_location_witness:
  "(setCheckpointDir spec_engine ''ckpt_test'' fresh
      = Inr ((), fresh\<lparr>checkpoint_location := Some ''ckpt_test''\<rparr>)
    \<and> checkpoint spec_engine \<lparr>columns = headers, records = data, checkpoint_file = None\<rparr> True
        (fresh\<lparr>checkpoint_location := Some ''ckpt_test''\<rparr>)
      = Inr (\<lparr>columns = headers, records = data, checkpoint_file = Some ''ckpt_test/rdd''\<rparr>,
             fresh\<lparr>checkpoint_location := Some ''ckpt_test'',
                   storage := [(''ckpt_test/rdd'', headers, data)]\<rparr>))
   \<and> (\<exists>f. getCheckpointFile spec_engine
          \<lparr>columns = headers, records = data, checkpoint_file = Some ''ckpt_test/rdd''\<rparr>
          (fresh\<lparr>checkpoint_location := Some ''ckpt_test'',
                 storage := [(''ckpt_test/rdd'', headers, data)]\<rparr>)
        = Inr (Some f, fresh\<lparr>checkpoint_location := Some ''ckpt_test'',
                              storage := [(''ckpt_test/rdd'', headers, data)]\<rparr>)
        \<and> prefix ''ckpt_test'' f)
   \<and> GetCheckpointFile \<lparr>columns = headers, records = data,
        checkpoint_file = Some ''my_local_check_point/rdd''\<rparr> \<in> set sample_events
   \<and> (\<exists>f. prefix (location_prefix @ ''my_local_check_point'') f
        \<and> Print (''Get the name of the file to which this RDD was checkpointed:'' @ f)
             \<in> set sample_events)"
proof -
  let ?df = "\<lparr>columns = headers, records = data, checkpoint_file = None\<rparr>"
  let ?s1 = "fresh\<lparr>checkpoint_location := Some ''ckpt_test''\<rparr>"
  have a: "setCheckpointDir spec_engine ''ckpt_test'' fresh = Inr ((), ?s1)
      \<and> checkpoint spec_engine ?df True ?s1 =
      Inr (\<lparr>columns = headers, records = data, checkpoint_file = Some ''ckpt_test/rdd''\<rparr>,
           fresh\<lparr>checkpoint_location := Some ''ckpt_test'',
                 storage := [(''ckpt_test/rdd'', headers, data)]\<rparr>)"
    by (simp add: spec_simps fresh_def Let_def)
  have g: "GetCheckpointFile \<lparr>columns = headers, records = data,
      checkpoint_file = Some ''my_local_check_point/rdd''\<rparr>
      \<in> set (fst (create_checkpoint_ex spec_engine fresh))"
    by (simp add: sample_run)
  show ?thesis
    using a g
      checkpoint_file_under_location [THEN conjunct1, rule_format, OF a]
      checkpoint_file_under_location [THEN conjunct2, rule_format, OF g]
    unfolding sample_events_def by blast
qed

text \<open>
  C5. On the engine of the specification, a checkpoint call fails with the error
  \<open>LocationUnset\<close> when no checkpoint location is configured and with
  \<open>LocationUnwritable\<close> when the configured location refuses writes. On any engine,
  the outcome of the workflow is the outcome of making its recorded calls once each, in
  order, up to the first one that raises: the error is the engine's own, unchanged.
  When the workflow ends with an error, every call but the last returned normally and
  the last call is the one that raised it, so nothing is run after a failure: no
  handler, no second attempt, no clean-up.
\<close>

theorem engine_errors_propagate:
  "(checkpoint_location s = None \<longrightarrow> checkpoint spec_engine df eager s = Inl LocationUnset)
   \<and> (checkpoint_location s = Some loc \<and> loc \<in> set (denied s) \<longrightarrow>
        checkpoint spec_engine df eager s = Inl LocationUnwritable)
   \<and> snd (create_checkpoint_ex E s0) =
        (case replay E (fst (create_checkpoint_ex E s0)) s0 of
           Inl e \<Rightarrow> Inl e | Inr s' \<Rightarrow> Inr ((), s'))
   \<and> (snd (create_checkpoint_ex E s0) = Inl e \<longrightarrow>
        (\<exists>s1. replay E (butlast (fst (create_checkpoint_ex E s0))) s0 = Inr s1
           \<and> perform E (last (fst (create_checkpoint_ex E s0))) s1 = Inl e))"
proof (intro conjI impI)
  show "checkpoint spec_engine df eager s = Inl LocationUnset"
    if "checkpoint_location s = None"
    using that by (simp add: spec_engine_def spec_checkpoint_def)
  show "checkpoint spec_engine df eager s = Inl LocationUnwritable"
    if "checkpoint_location s = Some loc \<and> loc \<in> set (denied s)"
    using that by (simp add: spec_engine_def spec_checkpoint_def)
  show "snd (create_checkpoint_ex E s0) =
        (case replay E (fst (create_checkpoint_ex E s0)) s0 of
           Inl e \<Rightarrow> Inl e | Inr s' \<Rightarrow> Inr ((), s'))"
    by (rule outcome_is_replay)
next
  assume failed: "snd (create_checkpoint_ex E s0) = Inl e"
  let ?t = "fst (create_checkpoint_ex E s0)"
  obtain s1 where s1: "replay E (butlast ?t) s0 = Inr s1"
    using calls_before_last_return [of E s0] by (elim exE)
  have "?t = butlast ?t @ [last ?t]"
    by (simp add: events_nonempty)
  then have "replay E ?t s0 = replay E (butlast ?t @ [last ?t]) s0"
    by simp
  also have "\<dots> = (case perform E (last ?t) s1 of Inl e \<Rightarrow> Inl e | Inr s' \<Rightarrow> Inr s')"
    by (simp add: replay_append s1 split: sum.splits)
  finally have "perform E (last ?t) s1 = Inl e"
    using failed outcome_is_replay [of E s0] by (auto split: sum.splits)
  with s1 show "\<exists>s1. replay E (butlast ?t) s0 = Inr s1 \<and> perform E (last ?t) s1 = Inl e"
    by blast
qed

theorem engine_errors_propagate_witness:
  "checkpoint_location fresh = None
   \<and> checkpoint spec_engine \<lparr>columns = headers, records = data, checkpoint_file = None\<rparr> True fresh
       = Inl LocationUnset
   \<and> (checkpoint_location (read_only\<lparr>checkpoint_location := Some ''my_local_check_point''\<rparr>)
         = Some ''my_local_check_point''
       \<and> ''my_local_check_point''
         \<in> set (denied (read_only\<lparr>checkpoint_location := Some ''my_local_check_point''\<rparr>)))
   \<and> checkpoint spec_engine \<lparr>columns = headers, records = data, checkpoint_file = None\<rparr> True
         (read_only\<lparr>checkpoint_location := Some ''my_local_check_point''\<rparr>)
       = Inl LocationUnwritable
   \<and> snd (create_checkpoint_ex spec_engine read_only) = Inl LocationUnwritable
   \<and> (\<exists>s1. replay spec_engine (butlast (fst (create_checkpoint_ex spec_engine read_only))) read_only
         = Inr s1
       \<and> perform spec_engine (last (fst (create_checkpoint_ex spec_engine read_only))) s1
         = Inl LocationUnwritable)"
proof -
  have n: "checkpoint_location fresh = None"
    by (simp add: fresh_def)
  have w: "checkpoint_location (read_only\<lparr>checkpoint_location := Some ''my_local_check_point''\<rparr>)
         = Some ''my_local_check_point''
       \<and> ''my_local_check_point''
         \<in> set (denied (read_only\<lparr>checkpoint_location := Some ''my_local_check_point''\<rparr>))"
    by (simp add: read_only_def)
  have f: "snd (create_checkpoint_ex spec_engine read_only) = Inl LocationUnwritable"
    by (simp add: spec_run_outcome read_only_def)
  show ?thesis
    using n w f
      engine_errors_propagate [THEN conjunct1, rule_format, OF n]
      engine_errors_propagate [THEN conjunct2, THEN conjunct1, rule_format, OF w]
      engine_errors_propagate [THEN conjunct2, THEN conjunct2, THEN conjunct2, rule_format, OF f]
    by simp
qed

text \<open>
  C6. In every run of the workflow, on any engine, each file system call of the
  deletion step (the existence check and the delete) names a path that was passed to
  \<open>setCheckpointDir\<close> earlier in the same run, and no other path is ever passed to
  \<open>setCheckpointDir\<close>.
\<close>

theorem deletion_path_is_registered_path:
  assumes t: "fst (create_checkpoint_ex E s) = pre @ ev # post"
    and ev: "ev = FsExists fs p \<or> ev = FsDelete fs p r"
  shows "SetCheckpointDir p \<in> set pre \<and>
    (\<forall>q. SetCheckpointDir q \<in> set (fst (create_checkpoint_ex E s)) \<longrightarrow> q = p)"
proof -
  from ev have "is_storage_call ev \<or> is_checkpoint ev"
    by (auto simp: is_storage_call_def)
  with led_byD [OF configure_first t] obtain y where y: "y \<in> set pre" "is_configure y"
    by blast
  then obtain d where d: "y = SetCheckpointDir d"
    by (auto simp: is_configure_def split: event.splits)
  from t ev have "FsExists fs p \<in> set (fst (create_checkpoint_ex E s)) \<or>
      FsDelete fs p r \<in> set (fst (create_checkpoint_ex E s))"
    by auto
  then have p: "p = location_prefix @ ''my_local_check_point''"
    by (auto dest: exists_path delete_path)
  from y d t have "SetCheckpointDir d \<in> set (fst (create_checkpoint_ex E s))"
    by simp
  then have "d = p"
    using p by (simp add: configured_path)
  with y d p show ?thesis
    by (auto dest: configured_path)
qed

theorem deletion_path_is_registered_path_witness:
  "fst (create_checkpoint_ex spec_engine fresh) =
      take 15 sample_events @ FsDelete () ''my_local_check_point'' True # drop 16 sample_events
   \<and> SetCheckpointDir ''my_local_check_point'' \<in> set (take 15 sample_events)"
proof -
  have h: "fst (create_checkpoint_ex spec_engine fresh) =
      take 15 sample_events @ FsDelete () ''my_local_check_point'' True # drop 16 sample_events"
    by (simp add: sample_events_eq sample_run)
  show ?thesis
    using h deletion_path_is_registered_path [OF h, of "()" "''my_local_check_point''" True]
    by simp
qed

text \<open>
  C7. Every call of the file system's delete operation that \<open>delete_hdfs_directory\<close>
  or the workflow \<open>create_checkpoint_ex\<close> makes, on any engine and from any state,
  passes \<open>True\<close> as the recursive flag.
\<close>

theorem delete_always_recursive:
  assumes "FsDelete fs p r \<in>
    set (fst (delete_hdfs_directory E q s)) \<union> set (fst (create_checkpoint_ex E s'))"
  shows "r = True"
  using assms by (auto dest: delete_path delete_hdfs_directory_path)

theorem delete_always_recursive_witness:
  "FsDelete () ''my_local_check_point'' True \<in>
     set (fst (delete_hdfs_directory spec_engine ''my_local_check_point'' fresh))
     \<union> set (fst (create_checkpoint_ex spec_engine fresh))
   \<and> True = True"
proof -
  have h: "FsDelete () ''my_local_check_point'' True \<in>
     set (fst (delete_hdfs_directory spec_engine ''my_local_check_point'' fresh))
     \<union> set (fst (create_checkpoint_ex spec_engine fresh))"
    by (simp add: sample_run)
  show ?thesis
    using h delete_always_recursive [OF h] by simp
qed

text \<open>
  C8. \<open>create_dataframe_ex\<close> (the specification's \<open>build_sample_dataset\<close>) makes one
  call, with the literal table and the literal headers as arguments, whatever the
  engine and its state are, and returns what the engine answers: the function has no
  input besides the session and adds no failure of its own. On the engine of the
  specification, where building a dataset from a literal cannot fail, it returns that
  table for every state. The table has 23 records, from \<open>(1, Steve, 26)\<close> to
  \<open>(23, James, 21)\<close>, and the columns, in order, are the identifier (named \<open>id\<close> in
  the source), the name and the age.
\<close>

theorem create_dataframe_ex_fixed:
  "create_dataframe_ex E s =
     ([CreateDataFrame data headers], createDataFrame E data headers s)
   \<and> create_dataframe_ex spec_engine s' =
       ([CreateDataFrame data headers],
        Inr (\<lparr>columns = headers, records = data, checkpoint_file = None\<rparr>, s'))
   \<and> headers = [''id'', ''name'', ''age''] \<and> length data = 23
   \<and> hd data = (1, ''Steve'', 26) \<and> last data = (23, ''James'', 21)"
  by (simp add: create_dataframe_ex_def invoke_def spec_engine_def spec_createDataFrame_def
      headers_def data_def)

text \<open>
  C9. The events of every run of the workflow, on any engine, are accepted by the
  state machine \<open>Unmaterialized\<close>, \<open>Checkpointed\<close>, \<open>Deleted\<close>: the dataset is created
  only before the checkpoint, checkpointed at most once, and the delete call comes at
  most once and only in the state \<open>Checkpointed\<close>. A delete call is preceded by the
  checkpoint call (made with \<open>eager = True\<close>), and every call before the delete has
  returned normally, so the checkpoint succeeded. On the engine of the specification,
  after a run that returns normally the checkpointed dataset still holds the sample
  table, while the file it refers to can no longer be read.
\<close>

theorem workflow_lifecycle:
  "lifecycle Unmaterialized (fst (create_checkpoint_ex E s)) \<noteq> None
   \<and> (fst (create_checkpoint_ex E s) = pre @ FsDelete fs p r # post \<longrightarrow>
        (\<exists>df. Checkpoint df True \<in> set pre) \<and> (\<exists>s1. replay E pre s = Inr s1))
   \<and> (snd (create_checkpoint_ex spec_engine s') = Inr ((), s'')
        \<and> GetCheckpointFile d \<in> set (fst (create_checkpoint_ex spec_engine s')) \<longrightarrow>
        columns d = headers \<and> records d = data
        \<and> (\<exists>f. checkpoint_file d = Some f \<and> read_checkpoint s'' f = None))"
proof (intro conjI impI)
  show "lifecycle Unmaterialized (fst (create_checkpoint_ex E s)) \<noteq> None"
    by (rule lifecycle_accepts)
next
  assume t: "fst (create_checkpoint_ex E s) = pre @ FsDelete fs p r # post"
  have "is_storage_call (FsDelete fs p r)"
    by (simp add: is_storage_call_def)
  with led_byD [OF checkpoint_first t] obtain y where y: "y \<in> set pre" "is_checkpoint y"
    by blast
  then obtain df eager where c: "y = Checkpoint df eager"
    by (auto simp: is_checkpoint_def split: event.splits)
  with y t have "Checkpoint df eager \<in> set (fst (create_checkpoint_ex E s))"
    by simp
  then have eager
    by (rule checkpoint_eager)
  with y c show "\<exists>df. Checkpoint df True \<in> set pre"
    by auto
  from t show "\<exists>s1. replay E pre s = Inr s1"
    by (rule calls_before_any_event_return)
next
  assume a: "snd (create_checkpoint_ex spec_engine s') = Inr ((), s'')
    \<and> GetCheckpointFile d \<in> set (fst (create_checkpoint_ex spec_engine s'))"
  then have ok: "''my_local_check_point'' \<notin> set (denied s')"
    by (auto simp: spec_run_outcome split: if_splits)
  with a have d: "d = \<lparr>columns = headers, records = data,
      checkpoint_file = Some ''my_local_check_point/rdd''\<rparr>"
    by (simp add: spec_run_events Let_def)
  from a ok have s'': "storage s'' =
      filter (\<lambda>(q, c). \<not> in_tree ''my_local_check_point'' q) (storage s')"
    by (auto simp: spec_run_outcome)
  have "in_tree ''my_local_check_point'' ''my_local_check_point/rdd''"
    by (simp add: in_tree_def)
  then have "read_checkpoint s'' ''my_local_check_point/rdd'' = None"
    by (simp add: read_checkpoint_def s'' read_after_delete)
  with d show "columns d = headers" "records d = data"
    "\<exists>f. checkpoint_file d = Some f \<and> read_checkpoint s'' f = None"
    by simp_all
qed

theorem workflow_lifecycle_witness:
  "lifecycle Unmaterialized sample_events = Some Deleted
   \<and> fst (create_checkpoint_ex spec_engine fresh) =
        take 15 sample_events @ FsDelete () ''my_local_check_point'' True # drop 16 sample_events
   \<and> (\<exists>df. Checkpoint df True \<in> set (take 15 sample_events))
   \<and> snd (create_checkpoint_ex spec_engine fresh) =
        Inr ((), fresh\<lparr>checkpoint_location := Some ''my_local_check_point''\<rparr>)
   \<and> read_checkpoint (fresh\<lparr>checkpoint_location := Some ''my_local_check_point''\<rparr>)
        ''my_local_check_point/rdd'' = None"
proof -
  have h: "fst (create_checkpoint_ex spec_engine fresh) =
      take 15 sample_events @ FsDelete () ''my_local_check_point'' True # drop 16 sample_events"
    by (simp add: sample_events_eq sample_run)
  have o: "snd (create_checkpoint_ex spec_engine fresh) =
      Inr ((), fresh\<lparr>checkpoint_location := Some ''my_local_check_point''\<rparr>)"
    by (simp add: spec_run_outcome fresh_def)
  have g: "GetCheckpointFile \<lparr>columns = headers, records = data,
      checkpoint_file = Some ''my_local_check_point/rdd''\<rparr>
      \<in> set (fst (create_checkpoint_ex spec_engine fresh))"
    by (simp add: sample_run)
  have l: "lifecycle Unmaterialized sample_events = Some Deleted"
    by (simp add: sample_events_eq)
  show ?thesis
    using h o g l
      workflow_lifecycle [THEN conjunct2, THEN conjunct1, rule_format, OF h]
      workflow_lifecycle [THEN conjunct2, THEN conjunct2, rule_format, OF conjI [OF o g]]
    by simp
qed

text \<open>
  C10. In every run of the workflow, on any engine, the event directly before a
  checkpoint call is a \<open>setCheckpointDir\<close> call; that call and all calls before it
  have returned normally, and the checkpoint call is made in the very state that
  \<open>setCheckpointDir\<close> returned. On the engine of the specification, where
  checkpointing without a configured location is the error \<open>LocationUnset\<close>, no run
  of the workflow ends with that error, whatever state it starts from.
\<close>

theorem checkpoint_dir_configured_first:
  "(fst (create_checkpoint_ex E s) = pre @ Checkpoint df eager # post \<longrightarrow>
      (\<exists>d s0 s1. pre \<noteq> [] \<and> last pre = SetCheckpointDir d
         \<and> replay E (butlast pre) s = Inr s0
         \<and> setCheckpointDir E d s0 = Inr ((), s1)
         \<and> replay E pre s = Inr s1))
   \<and> snd (create_checkpoint_ex spec_engine s') \<noteq> Inl LocationUnset"
proof (intro conjI impI)
  assume t: "fst (create_checkpoint_ex E s) = pre @ Checkpoint df eager # post"
  have c: "is_checkpoint (Checkpoint df eager)"
    by (simp add: is_checkpoint_def)
  have "if pre = [] then False else is_configure (last pre)"
    by (rule right_afterD [OF checkpoint_right_after_configure t c])
  then have pre: "pre \<noteq> []" and "is_configure (last pre)"
    by (simp_all split: if_splits)
  then obtain d where d: "last pre = SetCheckpointDir d"
    by (auto simp: is_configure_def split: event.splits)
  obtain s1 where s1: "replay E pre s = Inr s1"
    using calls_before_any_event_return [OF t] by (elim exE)
  from pre d have "pre = butlast pre @ [SetCheckpointDir d]"
    by (metis append_butlast_last_id)
  with s1 have "replay E (butlast pre @ [SetCheckpointDir d]) s = Inr s1"
    by simp
  then obtain s0 where s0: "replay E (butlast pre) s = Inr s0"
    and "outcome_state (setCheckpointDir E d s0) = Inr s1"
    by (auto simp: replay_append split: sum.splits)
  then have "setCheckpointDir E d s0 = Inr ((), s1)"
    by (auto simp: outcome_state_def split: sum.splits)
  with pre d s0 s1 show "\<exists>d s0 s1. pre \<noteq> [] \<and> last pre = SetCheckpointDir d
         \<and> replay E (butlast pre) s = Inr s0
         \<and> setCheckpointDir E d s0 = Inr ((), s1)
         \<and> replay E pre s = Inr s1"
    by blast
next
  show "snd (create_checkpoint_ex spec_engine s') \<noteq> Inl LocationUnset"
    by (simp add: spec_run_outcome)
qed

theorem checkpoint_dir_configured_first_witness:
  "fst (create_checkpoint_ex spec_engine fresh) =
      take 4 sample_events
      @ Checkpoint \<lparr>columns = headers, records = data, checkpoint_file = None\<rparr> True
      # drop 5 sample_events
   \<and> (\<exists>d s0 s1. last (take 4 sample_events) = SetCheckpointDir d
         \<and> replay spec_engine (butlast (take 4 sample_events)) fresh = Inr s0
         \<and> setCheckpointDir spec_engine d s0 = Inr ((), s1)
         \<and> replay spec_engine (take 4 sample_events) fresh = Inr s1)"
proof -
  have h: "fst (create_checkpoint_ex spec_engine fresh) =
      take 4 sample_events
      @ Checkpoint \<lparr>columns = headers, records = data, checkpoint_file = None\<rparr> True
      # drop 5 sample_events"
    by (simp add: sample_events_eq sample_run)
  show ?thesis
    using h checkpoint_dir_configured_first [THEN conjunct1, rule_format, OF h]
    by blast
qed

end
